theory Spec2Isabelle
  imports Main
begin

section \<open>The HTTP relay channel of nanobot (channels/http\_relay.py)\<close>

text \<open>
  The relay accepts one POST /message request, registers a per-request queue under a fresh
  correlation id in the dictionary \<open>_pending\<close>, publishes the inbound message on the
  bus and streams the outbound messages that \<open>send\<close> puts on that queue back to the
  caller as server-sent events, until a message that is not a progress message, a timeout
  of 900 seconds on one wait, or an exception ends the stream.

  The embedding is sequential: one call of a method is one function from the state
  before to the result and the state after. What the surroundings decide (the parsed
  body, the minted uuid, whether the bus or the transport raise, what arrives on the
  queue and after how long) are parameters.
\<close>

subsection \<open>Python values\<close>

text \<open>
  Request bodies and message metadata are JSON-like values of type \<open>Any\<close>. A dictionary is
  an association list in insertion order, read with \<open>map_of\<close> (keys are strings, as
  JSON gives them). Numbers are integers here: no branch of the relay looks at more than
  their truth value.
\<close>

datatype pyval =
    PNone
  | PBool bool
  | PInt int
  | PStr string
  | PList "pyval list"
  | PDict "(string \<times> pyval) list"

type_synonym pydict = "(string \<times> pyval) list"

text \<open>The exceptions that the modelled code can meet.\<close>

datatype error =
    AttributeError   \<comment> \<open>\<open>.get\<close> on a value that is not a dictionary\<close>
  | TypeError        \<comment> \<open>item assignment on a value that is not a dictionary\<close>
  | TransportError   \<comment> \<open>\<open>response.prepare\<close> or \<open>response.write\<close> on a broken connection\<close>
  | CancelledError   \<comment> \<open>\<open>asyncio.CancelledError\<close>, a BaseException that is not an Exception\<close>

text \<open>Python's truth value of an object, as \<open>bool(v)\<close>, \<open>not v\<close> and \<open>or\<close> use it.\<close>

fun truthy :: "pyval \<Rightarrow> bool" where
  "truthy PNone = False"
| "truthy (PBool b) = b"
| "truthy (PInt i) = (i \<noteq> 0)"
| "truthy (PStr s) = (s \<noteq> [])"
| "truthy (PList xs) = (xs \<noteq> [])"
| "truthy (PDict d) = (d \<noteq> [])"

text \<open>\<open>a or b\<close>: the first operand when it is true, the second otherwise.\<close>

definition py_or :: "pyval \<Rightarrow> pyval \<Rightarrow> pyval" where
  "py_or a b = (if truthy a then a else b)"

text \<open>\<open>d.get(k)\<close> on a dictionary: \<open>None\<close> for a missing key.\<close>

definition dict_get :: "pydict \<Rightarrow> string \<Rightarrow> pyval" where
  "dict_get d k = (case map_of d k of None \<Rightarrow> PNone | Some v \<Rightarrow> v)"

text \<open>
  \<open>v.get(k, dflt)\<close> on a value of any type: only a dictionary has the method, every
  other value raises AttributeError.
\<close>

definition get_default :: "pyval \<Rightarrow> string \<Rightarrow> pyval \<Rightarrow> error + pyval" where
  "get_default v k dflt =
     (case v of
        PDict d \<Rightarrow> Inr (case map_of d k of None \<Rightarrow> dflt | Some x \<Rightarrow> x)
      | _ \<Rightarrow> Inl AttributeError)"

text \<open>\<open>d[k] = v\<close> on a dictionary: replaces in place, or appends a new key.\<close>

fun dict_set :: "string \<Rightarrow> pyval \<Rightarrow> pydict \<Rightarrow> pydict" where
  "dict_set k v [] = [(k, v)]"
| "dict_set k v ((k', v') # d) =
     (if k' = k then (k, v) # d else (k', v') # dict_set k v d)"

text \<open>\<open>d.setdefault(k, v)\<close>: inserts only when the key is missing (whatever its value).\<close>

definition setdefault :: "string \<Rightarrow> pyval \<Rightarrow> pydict \<Rightarrow> pydict" where
  "setdefault k v d = (case map_of d k of None \<Rightarrow> dict_set k v d | Some _ \<Rightarrow> d)"

subsection \<open>Outbound messages and the correlation id\<close>

text \<open>
  \<open>OutboundMessage\<close> (nanobot.bus.events) with the two fields the relay reads. The
  metadata is declared a dictionary; the relay guards against \<open>None\<close> with
  \<open>msg.metadata or {}\<close>, so the field is a value of any type here.
\<close>

record outbound_message =
  content :: string
  metadata :: pyval

text \<open>
  Lines 194-197 and 200-203 of \<open>_extract_request_id\<close> are the same test on two
  namespaces: the namespace must be a dictionary and its \<open>request_id\<close> a non-empty
  string.
\<close>

definition request_id_in :: "pyval \<Rightarrow> string option" where
  "request_id_in ns =
     (case ns of
        PDict d \<Rightarrow>
          (case dict_get d ''request_id'' of
             PStr s \<Rightarrow> if s \<noteq> [] then Some s else None
           | _ \<Rightarrow> None)
      | _ \<Rightarrow> None)"

text \<open>\<open>_extract_request_id\<close> (lines 191-204).\<close>

definition extract_request_id :: "outbound_message \<Rightarrow> error + string option" where
  "extract_request_id msg =
     (case get_default (py_or (metadata msg) (PDict [])) ''progress'' (PDict []) of
        Inl e \<Rightarrow> Inl e
      | Inr progress \<Rightarrow>
          (case request_id_in progress of
             Some request_id \<Rightarrow> Inr (Some request_id)
           | None \<Rightarrow>
               (case get_default (py_or (metadata msg) (PDict [])) ''http_relay'' (PDict []) of
                  Inl e \<Rightarrow> Inl e
                | Inr relay \<Rightarrow> Inr (request_id_in relay))))"

text \<open>
  The metadata shapes of a well-typed message: the declared dictionary, or \<open>None\<close>.
\<close>

definition metadata_shape :: "pyval \<Rightarrow> bool" where
  "metadata_shape v = (case v of PNone \<Rightarrow> True | PDict _ \<Rightarrow> True | _ \<Rightarrow> False)"

subsection \<open>The registry and the dispatcher\<close>

text \<open>
  \<open>_pending\<close>: correlation id to the queue of that request. A queue is the list of the
  messages on it, oldest first; \<open>asyncio.Queue()\<close> is unbounded, so \<open>put\<close> always
  appends.
\<close>

type_synonym registry = "string \<rightharpoonup> outbound_message list"

text \<open>
  \<open>send\<close> (lines 71-86). The test \<open>not request_id\<close> is true of \<open>None\<close> and of the
  empty string.
\<close>

definition send :: "outbound_message \<Rightarrow> registry \<Rightarrow> error + registry" where
  "send msg pend =
     (case extract_request_id msg of
        Inl e \<Rightarrow> Inl e
      | Inr None \<Rightarrow> Inr pend
      | Inr (Some request_id) \<Rightarrow>
          if request_id = [] then Inr pend
          else (case pend request_id of
                  None \<Rightarrow> Inr pend
                | Some queue \<Rightarrow> Inr (pend(request_id \<mapsto> queue @ [msg]))))"

subsection \<open>The request handler\<close>

text \<open>
  What one call of \<open>_handle_message_post\<close> gets from outside:
  the value of \<open>request.json()\<close> (\<open>None\<close> when it raises), the hex string of
  \<open>uuid4()\<close>, whether \<open>response.prepare\<close> raises, how \<open>_handle_message\<close> (the
  publish on the bus, in BaseChannel) ends, and what the waits on the request's queue
  meet: for each wait in turn, the seconds until an item is on the queue and that item.
  When the list is used up nothing arrives any more.

  The publish returns, or raises an \<open>Exception\<close>, which line 133 catches, or is left by
  a \<open>BaseException\<close> that is no \<open>Exception\<close> (the task is cancelled while it awaits
  the bus), which line 133 does not catch.
\<close>

datatype publish_result = Published | PublishError | PublishCancelled

record request =
  json_body :: "pyval option"
  minted_id :: string
  prepare_fails :: bool
  publish :: publish_result
  arrivals :: "(nat \<times> outbound_message) list"

text \<open>
  The state a call works on: the shared registry, and the call's own response, which is
  whether it is prepared (headers sent, stream open), the events written so far as
  (event, payload), and the number of writes the connection still takes before
  \<open>response.write\<close> raises (\<open>None\<close>: it never does). \<open>published\<close> is the metadata of
  the inbound messages given to the bus.
\<close>

record relay_state =
  pending :: registry
  prepared :: bool
  events :: "(string \<times> pydict) list"
  writes_left :: "nat option"
  published :: "pydict list"

text \<open>The three \<open>return response\<close> of the handler: lines 144, 155 and 169.\<close>

datatype exit_path = PublishFailed | TimedOut | FinalMessage

datatype outcome =
    JsonResponse nat pydict   \<comment> \<open>\<open>web.json_response(body, status=...)\<close>\<close>
  | StreamReturned exit_path  \<comment> \<open>the prepared stream response\<close>
  | Raised error              \<comment> \<open>an exception left the handler\<close>

text \<open>\<open>_write_sse_event\<close> (lines 206-215): one event, written at once.\<close>

definition write_sse_event :: "relay_state \<Rightarrow> string \<Rightarrow> pydict \<Rightarrow> error + relay_state" where
  "write_sse_event st event payload =
     (if writes_left st = Some 0 then Inl TransportError
      else Inr (st\<lparr>events := events st @ [(event, payload)],
                   writes_left := map_option (\<lambda>n. n - 1) (writes_left st)\<rparr>))"

text \<open>\<open>_parse_request_body\<close> (lines 175-185).\<close>

definition parse_request_body :: "request \<Rightarrow> outcome + pydict" where
  "parse_request_body req =
     (case json_body req of
        None \<Rightarrow> Inl (JsonResponse 400 [(''error'', PStr ''Invalid JSON body'')])
      | Some (PDict body) \<Rightarrow> Inr body
      | Some _ \<Rightarrow> Inl (JsonResponse 400 [(''error'', PStr ''Payload must be an object'')]))"

text \<open>\<open>_normalize_metadata\<close> (lines 187-189).\<close>

definition normalize_metadata :: "pyval \<Rightarrow> pydict" where
  "normalize_metadata m = (case m of PDict d \<Rightarrow> d | _ \<Rightarrow> [])"

text \<open>
  Lines 105-107: the copy of the caller's metadata gets the minted id under
  \<open>http_relay.request_id\<close>. The assignment \<open>metadata["http_relay"]["request_id"] = ...\<close>
  raises TypeError when the caller's \<open>http_relay\<close> is not a dictionary.
\<close>

definition tag_metadata :: "string \<Rightarrow> pyval \<Rightarrow> error + pydict" where
  "tag_metadata request_id m =
     (let md = setdefault ''http_relay'' (PDict []) (normalize_metadata m)
      in case dict_get md ''http_relay'' of
           PDict relay \<Rightarrow>
             Inr (dict_set ''http_relay'' (PDict (dict_set ''request_id'' (PStr request_id) relay)) md)
         | _ \<Rightarrow> Inl TypeError)"

text \<open>
  Lines 157-161: \<open>bool((outbound.metadata or {}).get("progress", {}).get("is_progress"))\<close>.
\<close>

definition is_progress_of :: "outbound_message \<Rightarrow> error + bool" where
  "is_progress_of outbound =
     (case get_default (py_or (metadata outbound) (PDict [])) ''progress'' (PDict []) of
        Inl e \<Rightarrow> Inl e
      | Inr progress \<Rightarrow>
          (case get_default progress ''is_progress'' PNone of
             Inl e \<Rightarrow> Inl e
           | Inr flag \<Rightarrow> Inr (truthy flag)))"

text \<open>Lines 149-155: the timeout branch of one wait.\<close>

definition on_timeout :: "relay_state \<Rightarrow> outcome \<times> relay_state" where
  "on_timeout st =
     (case write_sse_event st ''response'' [(''content'', PStr ''Upstream response timed out.'')] of
        Inl e \<Rightarrow> (Raised e, st)
      | Inr st' \<Rightarrow> (StreamReturned TimedOut, st'))"

text \<open>
  The delivery loop (lines 146-169). Each round is one
  \<open>asyncio.wait_for(queue.get(), timeout=900)\<close>: it gives the next item when that is on
  the queue in less than 900 seconds, and raises TimeoutError otherwise.
\<close>

fun delivery_loop :: "(nat \<times> outbound_message) list \<Rightarrow> relay_state \<Rightarrow> outcome \<times> relay_state" where
  "delivery_loop [] st = on_timeout st"
| "delivery_loop ((gap, outbound) # rest) st =
     (if 900 \<le> gap then on_timeout st
      else case is_progress_of outbound of
             Inl e \<Rightarrow> (Raised e, st)
           | Inr is_progress \<Rightarrow>
               (case write_sse_event st (if is_progress then ''progress'' else ''response'')
                       [(''content'', PStr (content outbound))] of
                  Inl e \<Rightarrow> (Raised e, st)
                | Inr st' \<Rightarrow>
                    if \<not> is_progress then (StreamReturned FinalMessage, st')
                    else delivery_loop rest st'))"

text \<open>The body of the \<open>try\<close> (lines 114-169).\<close>

definition stream_request :: "request \<Rightarrow> pydict \<Rightarrow> relay_state \<Rightarrow> outcome \<times> relay_state" where
  "stream_request req md st =
     (if prepare_fails req then (Raised TransportError, st)
      else case publish req of
          PublishCancelled \<Rightarrow> (Raised CancelledError, st\<lparr>prepared := True\<rparr>)
        | PublishError \<Rightarrow>
            (case write_sse_event (st\<lparr>prepared := True\<rparr>) ''response''
                    [(''content'', PStr ''I could not process this message. Please retry.'')] of
               Inl e \<Rightarrow> (Raised e, st\<lparr>prepared := True\<rparr>)
             | Inr st' \<Rightarrow> (StreamReturned PublishFailed, st'))
        | Published \<Rightarrow>
            delivery_loop (arrivals req) (st\<lparr>prepared := True, published := published st @ [md]\<rparr>))"

text \<open>Lines 109-111: the fresh queue goes into the registry under the minted id.\<close>

definition register_pending :: "string \<Rightarrow> relay_state \<Rightarrow> relay_state" where
  "register_pending request_id st = st\<lparr>pending := (pending st)(request_id \<mapsto> [])\<rparr>"

text \<open>Lines 171-173: \<open>self._pending.pop(request_id, None)\<close>.\<close>

definition pop_pending :: "string \<Rightarrow> relay_state \<Rightarrow> relay_state" where
  "pop_pending request_id st = st\<lparr>pending := (pending st)(request_id := None)\<rparr>"

text \<open>\<open>_handle_message_post\<close> (lines 88-173).\<close>

definition handle_message_post :: "request \<Rightarrow> relay_state \<Rightarrow> outcome \<times> relay_state" where
  "handle_message_post req st =
     (case parse_request_body req of
        Inl resp \<Rightarrow> (resp, st)
      | Inr body \<Rightarrow>
          (let sender_id = py_or (dict_get body ''senderId'') (dict_get body ''sender_id'');
               chat_id = py_or (dict_get body ''chatId'') (dict_get body ''chat_id'');
               content = dict_get body ''content'';
               metadata = py_or (dict_get body ''metadata'') (PDict [])
           in if \<not> truthy sender_id \<or> \<not> truthy chat_id \<or> content = PNone then
                (JsonResponse 400 [(''error'', PStr ''Missing sender_id/chat_id/content'')], st)
              else
                (case tag_metadata (minted_id req) metadata of
                   Inl e \<Rightarrow> (Raised e, st)
                 | Inr md \<Rightarrow>
                     (case stream_request req md (register_pending (minted_id req) st) of
                        (out, st') \<Rightarrow> (out, pop_pending (minted_id req) st')))))"

subsection \<open>Notions used in the statements\<close>

text \<open>The state after one event with the payload \<open>{"content": text}\<close> went out.\<close>

definition emitted :: "relay_state \<Rightarrow> string \<Rightarrow> string \<Rightarrow> relay_state" where
  "emitted st event text =
     st\<lparr>events := events st @ [(event, [(''content'', PStr text)])],
        writes_left := map_option (\<lambda>n. n - 1) (writes_left st)\<rparr>"

text \<open>The state after a list of events went out.\<close>

definition emitted_all :: "relay_state \<Rightarrow> (string \<times> pydict) list \<Rightarrow> relay_state" where
  "emitted_all st evs =
     st\<lparr>events := events st @ evs,
        writes_left := map_option (\<lambda>n. n - length evs) (writes_left st)\<rparr>"

text \<open>The connection takes more than \<open>k\<close> further writes.\<close>

definition enough_writes :: "relay_state \<Rightarrow> nat \<Rightarrow> bool" where
  "enough_writes st k = (case writes_left st of None \<Rightarrow> True | Some n \<Rightarrow> k < n)"

text \<open>
  A wait that makes the loop go round again: the item is there in less than 900 seconds
  and its progress flag is true.
\<close>

definition in_time_progress :: "nat \<times> outbound_message \<Rightarrow> bool" where
  "in_time_progress a = (fst a < 900 \<and> is_progress_of (snd a) = Inr True)"

text \<open>The progress events of a list of arrivals.\<close>

definition progress_events :: "(nat \<times> outbound_message) list \<Rightarrow> (string \<times> pydict) list" where
  "progress_events as = map (\<lambda>a. (''progress'', [(''content'', PStr (content (snd a)))])) as"

text \<open>
  The loop in closed form: progress events for the longest run of in-time progress
  messages, then what the first other wait decides.
\<close>

definition loop_result :: "(nat \<times> outbound_message) list \<Rightarrow> relay_state \<Rightarrow> outcome \<times> relay_state" where
  "loop_result as st =
     (let st1 = emitted_all st (progress_events (takeWhile in_time_progress as))
      in case dropWhile in_time_progress as of
           [] \<Rightarrow> (StreamReturned TimedOut, emitted st1 ''response'' ''Upstream response timed out.'')
         | a # _ \<Rightarrow>
             if 900 \<le> fst a then (StreamReturned TimedOut, emitted st1 ''response'' ''Upstream response timed out.'')
             else (case is_progress_of (snd a) of
                     Inl e \<Rightarrow> (Raised e, st1)
                   | Inr _ \<Rightarrow> (StreamReturned FinalMessage, emitted st1 ''response'' (content (snd a)))))"

text \<open>
  A request that passes the parsing and the validation of lines 89-102: the body is an
  object, sender and conversation identifier are there and true, the content is not
  \<open>None\<close>.
\<close>

definition valid_request :: "request \<Rightarrow> pydict \<Rightarrow> bool" where
  "valid_request req body =
     (json_body req = Some (PDict body)
      \<and> truthy (py_or (dict_get body ''senderId'') (dict_get body ''sender_id''))
      \<and> truthy (py_or (dict_get body ''chatId'') (dict_get body ''chat_id''))
      \<and> dict_get body ''content'' \<noteq> PNone)"

subsection \<open>Example inputs\<close>

text \<open>
  The inputs of the examples below: an empty channel state, the body of a valid request,
  a progress message and a final message for the request \<open>r1\<close>, a message whose
  \<open>progress\<close> metadata is a string, a message whose \<open>progress\<close> metadata is \<open>None\<close>
  (so it has no progress flag), and the request that gets \<open>r1\<close> as its id.
\<close>

abbreviation (input) st0 :: relay_state where
  "st0 \<equiv> \<lparr>pending = Map.empty, prepared = False, events = [], writes_left = None, published = []\<rparr>"

abbreviation (input) body0 :: pydict where
  "body0 \<equiv> [(''sender_id'', PStr ''u1''), (''chat_id'', PStr ''c1''), (''content'', PStr ''hi'')]"

abbreviation (input) progress_msg :: "string \<Rightarrow> outbound_message" where
  "progress_msg t \<equiv>
     \<lparr>content = t,
      metadata = PDict [(''progress'', PDict [(''is_progress'', PBool True), (''request_id'', PStr ''r1'')])]\<rparr>"

abbreviation (input) final_msg :: "string \<Rightarrow> outbound_message" where
  "final_msg t \<equiv>
     \<lparr>content = t,
      metadata = PDict [(''progress'', PDict [(''is_progress'', PBool False), (''request_id'', PStr ''r1'')])]\<rparr>"

abbreviation (input) bad_msg :: outbound_message where
  "bad_msg \<equiv>
     \<lparr>content = ''working'',
      metadata = PDict [(''progress'', PStr ''half''), (''http_relay'', PDict [(''request_id'', PStr ''r1'')])]\<rparr>"

abbreviation (input) null_msg :: outbound_message where
  "null_msg \<equiv>
     \<lparr>content = ''done'',
      metadata = PDict [(''progress'', PNone), (''http_relay'', PDict [(''request_id'', PStr ''r1'')])]\<rparr>"

abbreviation (input) req0 :: "(nat \<times> outbound_message) list \<Rightarrow> request" where
  "req0 arr \<equiv>
     \<lparr>json_body = Some (PDict body0), minted_id = ''r1'', prepare_fails = False,
      publish = Published, arrivals = arr\<rparr>"

section \<open>Properties\<close>

lemmas eval_defs =
  extract_request_id_def get_default_def py_or_def request_id_in_def dict_get_def
  handle_message_post_def parse_request_body_def tag_metadata_def normalize_metadata_def
  setdefault_def stream_request_def register_pending_def pop_pending_def is_progress_of_def
  on_timeout_def write_sse_event_def Let_def

subsection \<open>Extraction of the correlation id\<close>

lemma request_id_in_nonempty: "request_id_in ns \<noteq> Some []"
  by (auto simp: request_id_in_def split: pyval.splits)

lemma get_default_shape:
  "metadata_shape v \<Longrightarrow>
   get_default (py_or v (PDict [])) k (PDict []) =
     Inr (case v of PDict d \<Rightarrow> (case map_of d k of None \<Rightarrow> PDict [] | Some x \<Rightarrow> x)
          | _ \<Rightarrow> PDict [])"
  by (cases v) (auto simp: metadata_shape_def get_default_def py_or_def)

text \<open>
  C10. \<open>_extract_request_id\<close> is total on every message whose metadata is absent
  (\<open>None\<close>) or a dictionary, whatever the values under \<open>progress\<close>, \<open>http_relay\<close> and
  \<open>request_id\<close> are: it raises nothing and returns \<open>None\<close> or a non-empty string, never
  the empty string.
\<close>

theorem extract_request_id_total:
  assumes "metadata_shape (metadata msg)"
  shows "\<exists>r. extract_request_id msg = Inr r \<and> r \<noteq> Some []"
proof -
  from assms obtain p where p: "get_default (py_or (metadata msg) (PDict [])) ''progress'' (PDict []) = Inr p"
    by (simp add: get_default_shape)
  from assms obtain q where q: "get_default (py_or (metadata msg) (PDict [])) ''http_relay'' (PDict []) = Inr q"
    by (simp add: get_default_shape)
  show ?thesis
  proof (cases "request_id_in p")
    case None
    with p q have "extract_request_id msg = Inr (request_id_in q)"
      by (simp add: extract_request_id_def)
    then show ?thesis by (simp add: request_id_in_nonempty)
  next
    case (Some s)
    with p have "extract_request_id msg = Inr (Some s)"
      by (simp add: extract_request_id_def)
    moreover from Some have "s \<noteq> []" using request_id_in_nonempty [of p] by auto
    ultimately show ?thesis by simp
  qed
qed

theorem extract_request_id_total_witness:
  "metadata_shape (PDict [(''progress'', PStr ''x''), (''http_relay'', PDict [(''request_id'', PStr [])])])
   \<and> (\<exists>r. extract_request_id
          \<lparr>content = ''hi'',
           metadata = PDict [(''progress'', PStr ''x''), (''http_relay'', PDict [(''request_id'', PStr [])])]\<rparr>
        = Inr r \<and> r \<noteq> Some [])"
  using extract_request_id_total
    [of "\<lparr>content = ''hi'',
         metadata = PDict [(''progress'', PStr ''x''), (''http_relay'', PDict [(''request_id'', PStr [])])]\<rparr>"]
  by (simp add: metadata_shape_def)

text \<open>
  C6. Both namespaces are looked at, \<open>progress\<close> first: a non-empty string under
  \<open>metadata["progress"]["request_id"]\<close> is the result whatever \<open>http_relay\<close> holds, and
  the id under \<open>http_relay\<close> is the result only when \<open>progress\<close> gives no usable id.
\<close>

theorem extract_request_id_precedence:
  assumes "metadata msg = PDict d"
  shows "(\<forall>p s. map_of d ''progress'' = Some (PDict p) \<and> map_of p ''request_id'' = Some (PStr s) \<and> s \<noteq> []
            \<longrightarrow> extract_request_id msg = Inr (Some s))
       \<and> (request_id_in (case map_of d ''progress'' of None \<Rightarrow> PDict [] | Some x \<Rightarrow> x) = None
            \<longrightarrow> extract_request_id msg =
                 Inr (request_id_in (case map_of d ''http_relay'' of None \<Rightarrow> PDict [] | Some x \<Rightarrow> x)))"
proof -
  have shape: "metadata_shape (metadata msg)"
    using assms by (simp add: metadata_shape_def)
  have p: "get_default (py_or (metadata msg) (PDict [])) ''progress'' (PDict []) =
             Inr (case map_of d ''progress'' of None \<Rightarrow> PDict [] | Some x \<Rightarrow> x)"
    using get_default_shape [OF shape, of "''progress''"] assms by simp
  have q: "get_default (py_or (metadata msg) (PDict [])) ''http_relay'' (PDict []) =
             Inr (case map_of d ''http_relay'' of None \<Rightarrow> PDict [] | Some x \<Rightarrow> x)"
    using get_default_shape [OF shape, of "''http_relay''"] assms by simp
  show ?thesis
    by (auto simp: extract_request_id_def p q request_id_in_def dict_get_def)
qed

theorem extract_request_id_precedence_witness:
  "extract_request_id
     \<lparr>content = ''hi'',
      metadata = PDict [(''http_relay'', PDict [(''request_id'', PStr ''r1'')]),
                        (''progress'', PDict [(''request_id'', PStr ''p1'')])]\<rparr> = Inr (Some ''p1'')
   \<and> extract_request_id
     \<lparr>content = ''hi'',
      metadata = PDict [(''http_relay'', PDict [(''request_id'', PStr ''r1'')]),
                        (''progress'', PDict [(''request_id'', PInt 7)])]\<rparr> = Inr (Some ''r1'')"
proof -
  let ?d1 = "[(''http_relay'', PDict [(''request_id'', PStr ''r1'')]),
              (''progress'', PDict [(''request_id'', PStr ''p1'')])]"
  let ?d2 = "[(''http_relay'', PDict [(''request_id'', PStr ''r1'')]),
              (''progress'', PDict [(''request_id'', PInt 7)])]"
  have a: "extract_request_id \<lparr>content = ''hi'', metadata = PDict ?d1\<rparr> = Inr (Some ''p1'')"
    using extract_request_id_precedence [of "\<lparr>content = ''hi'', metadata = PDict ?d1\<rparr>" ?d1]
    by simp
  have b: "extract_request_id \<lparr>content = ''hi'', metadata = PDict ?d2\<rparr> = Inr (Some ''r1'')"
    using extract_request_id_precedence [of "\<lparr>content = ''hi'', metadata = PDict ?d2\<rparr>" ?d2]
    by (simp add: request_id_in_def dict_get_def)
  from a b show ?thesis by simp
qed

subsection \<open>The dispatcher\<close>

text \<open>
  C5. A message with no resolvable correlation id, or with an id that has no entry in the
  registry, makes \<open>send\<close> return normally with the registry and every queue in it as
  they were: the message is put on no queue, so no stream can emit it.
\<close>

theorem send_unroutable_dropped:
  assumes "extract_request_id msg = Inr None
           \<or> (\<exists>rid. extract_request_id msg = Inr (Some rid) \<and> pend rid = None)"
  shows "send msg pend = Inr pend"
  using assms by (auto simp: send_def)

theorem send_unroutable_dropped_witness:
  "send \<lparr>content = ''late'', metadata = PDict [(''http_relay'', PDict [(''request_id'', PStr ''gone'')])]\<rparr>
        [''live'' \<mapsto> []] = Inr [''live'' \<mapsto> []]
   \<and> send \<lparr>content = ''other channel'', metadata = PNone\<rparr> [''live'' \<mapsto> []] = Inr [''live'' \<mapsto> []]"
proof -
  let ?m1 = "\<lparr>content = ''late'', metadata = PDict [(''http_relay'', PDict [(''request_id'', PStr ''gone'')])]\<rparr>"
  let ?m2 = "\<lparr>content = ''other channel'', metadata = PNone\<rparr>"
  let ?pend = "[''live'' \<mapsto> []] :: registry"
  have e1: "extract_request_id ?m1 = Inr (Some ''gone'')"
    by (simp add: extract_request_id_def get_default_def py_or_def request_id_in_def dict_get_def)
  have e2: "extract_request_id ?m2 = Inr None"
    by (simp add: extract_request_id_def get_default_def py_or_def request_id_in_def dict_get_def)
  have n: "?pend ''gone'' = None" by simp
  have a: "send ?m1 ?pend = Inr ?pend"
    using send_unroutable_dropped [of ?m1 ?pend] e1 n by blast
  have b: "send ?m2 ?pend = Inr ?pend"
    using send_unroutable_dropped [of ?m2 ?pend] e2 by blast
  from a b show ?thesis by simp
qed

subsection \<open>Validation\<close>

text \<open>
  C4. A body that lacks the sender identifier (under both spellings), the conversation
  identifier (under both spellings) or the content is answered with status 400 and the
  body \<open>{"error": "Missing sender_id/chat_id/content"}\<close>; the state is as before, so no
  registry entry was made and no stream was opened.
\<close>

theorem missing_field_rejected:
  assumes "json_body req = Some (PDict body)"
    and "(map_of body ''senderId'' = None \<and> map_of body ''sender_id'' = None)
         \<or> (map_of body ''chatId'' = None \<and> map_of body ''chat_id'' = None)
         \<or> map_of body ''content'' = None"
  shows "handle_message_post req st =
           (JsonResponse 400 [(''error'', PStr ''Missing sender_id/chat_id/content'')], st)"
proof -
  have parsed: "parse_request_body req = Inr body"
    using assms(1) by (simp add: parse_request_body_def)
  from assms(2) have
    "\<not> truthy (py_or (dict_get body ''senderId'') (dict_get body ''sender_id''))
     \<or> \<not> truthy (py_or (dict_get body ''chatId'') (dict_get body ''chat_id''))
     \<or> dict_get body ''content'' = PNone"
    by (auto simp: dict_get_def py_or_def)
  then show ?thesis
    unfolding handle_message_post_def parsed by (simp add: Let_def)
qed

theorem missing_field_rejected_witness:
  "handle_message_post
     \<lparr>json_body = Some (PDict [(''sender_id'', PStr ''u1''), (''chat_id'', PStr ''c1'')]),
      minted_id = ''r1'', prepare_fails = False, publish = Published, arrivals = []\<rparr>
     \<lparr>pending = Map.empty, prepared = False, events = [], writes_left = None, published = []\<rparr>
   = (JsonResponse 400 [(''error'', PStr ''Missing sender_id/chat_id/content'')],
      \<lparr>pending = Map.empty, prepared = False, events = [], writes_left = None, published = []\<rparr>)"
  using missing_field_rejected
    [of "\<lparr>json_body = Some (PDict [(''sender_id'', PStr ''u1''), (''chat_id'', PStr ''c1'')]),
          minted_id = ''r1'', prepare_fails = False, publish = Published, arrivals = []\<rparr>"
        "[(''sender_id'', PStr ''u1''), (''chat_id'', PStr ''c1'')]"]
  by simp

subsection \<open>The correlation id in the inbound metadata\<close>

lemma map_of_dict_set: "map_of (dict_set k v d) = (map_of d)(k \<mapsto> v)"
  by (induction d) (auto simp: fun_eq_iff)

text \<open>
  C8, as the code has it. When the caller's metadata is a dictionary whose
  \<open>http_relay\<close> is missing or a dictionary, the merge succeeds; every key of the caller
  other than \<open>http_relay\<close> keeps its value; \<open>http_relay\<close> is a dictionary that holds the
  minted id under \<open>request_id\<close> and, for every other key, what the caller's \<open>http_relay\<close>
  held.
\<close>

theorem tag_metadata_preserves:
  assumes "map_of d ''http_relay'' = None \<or> (\<exists>relay. map_of d ''http_relay'' = Some (PDict relay))"
  shows "\<exists>md relay'. tag_metadata rid (PDict d) = Inr md
          \<and> (\<forall>k. k \<noteq> ''http_relay'' \<longrightarrow> map_of md k = map_of d k)
          \<and> map_of md ''http_relay'' = Some (PDict relay')
          \<and> map_of relay' ''request_id'' = Some (PStr rid)
          \<and> (\<forall>j. j \<noteq> ''request_id'' \<longrightarrow>
                 map_of relay' j = (case map_of d ''http_relay'' of
                                      Some (PDict relay) \<Rightarrow> map_of relay j
                                    | _ \<Rightarrow> None))"
  using assms
  by (auto simp: tag_metadata_def normalize_metadata_def setdefault_def dict_get_def
        map_of_dict_set Let_def)

theorem tag_metadata_preserves_witness:
  "(map_of [(''trace'', PStr ''t1''), (''http_relay'', PDict [(''origin'', PStr ''web'')])] ''http_relay'' = None
      \<or> (\<exists>relay. map_of [(''trace'', PStr ''t1''), (''http_relay'', PDict [(''origin'', PStr ''web'')])] ''http_relay''
                     = Some (PDict relay)))
   \<and> (\<exists>md relay'.
         tag_metadata ''r1'' (PDict [(''trace'', PStr ''t1''), (''http_relay'', PDict [(''origin'', PStr ''web'')])])
           = Inr md
         \<and> map_of md ''trace'' = Some (PStr ''t1'')
         \<and> map_of md ''http_relay'' = Some (PDict relay')
         \<and> map_of relay' ''request_id'' = Some (PStr ''r1'')
         \<and> map_of relay' ''origin'' = Some (PStr ''web''))"
proof -
  let ?d = "[(''trace'', PStr ''t1''), (''http_relay'', PDict [(''origin'', PStr ''web'')])]"
  have h: "map_of ?d ''http_relay'' = None \<or> (\<exists>relay. map_of ?d ''http_relay'' = Some (PDict relay))"
    by simp
  from tag_metadata_preserves [OF h, of "''r1''"]
  obtain md relay' where
    t: "tag_metadata ''r1'' (PDict ?d) = Inr md"
    and k: "\<forall>k. k \<noteq> ''http_relay'' \<longrightarrow> map_of md k = map_of ?d k"
    and r: "map_of md ''http_relay'' = Some (PDict relay')"
    and i: "map_of relay' ''request_id'' = Some (PStr ''r1'')"
    and j: "\<forall>j. j \<noteq> ''request_id'' \<longrightarrow>
              map_of relay' j = (case map_of ?d ''http_relay'' of
                                   Some (PDict relay) \<Rightarrow> map_of relay j | _ \<Rightarrow> None)"
    by blast
  from k have "map_of md ''trace'' = Some (PStr ''t1'')" by simp
  moreover from j have "map_of relay' ''origin'' = Some (PStr ''web'')" by simp
  ultimately show ?thesis using h t r i by blast
qed

text \<open>
  C8 as stated fails: a caller's \<open>http_relay.request_id\<close> is overwritten, so the value
  the caller gave under the key \<open>http_relay\<close> is not the value in the merged metadata.
\<close>

theorem tag_metadata_overwrites:
  "map_of [(''trace'', PStr ''t1''), (''http_relay'', PDict [(''request_id'', PStr ''mine'')])] ''http_relay''
     = Some (PDict [(''request_id'', PStr ''mine'')])
   \<and> tag_metadata ''r1'' (PDict [(''trace'', PStr ''t1''), (''http_relay'', PDict [(''request_id'', PStr ''mine'')])])
     = Inr [(''trace'', PStr ''t1''), (''http_relay'', PDict [(''request_id'', PStr ''r1'')])]
   \<and> map_of [(''trace'', PStr ''t1''), (''http_relay'', PDict [(''request_id'', PStr ''r1'')])] ''http_relay''
     \<noteq> Some (PDict [(''request_id'', PStr ''mine'')])"
  by (simp add: tag_metadata_def normalize_metadata_def setdefault_def dict_get_def)

subsection \<open>The delivery loop\<close>

lemma write_ok:
  "writes_left st \<noteq> Some 0 \<Longrightarrow>
   write_sse_event st event [(''content'', PStr text)] = Inr (emitted st event text)"
  by (simp add: write_sse_event_def emitted_def)

lemma enough_writes_now: "enough_writes st k \<Longrightarrow> writes_left st \<noteq> Some 0"
  by (auto simp: enough_writes_def)

lemma enough_writes_emitted: "enough_writes st (Suc k) \<Longrightarrow> enough_writes (emitted st e t) k"
  by (auto simp: enough_writes_def emitted_def split: option.splits)

lemma emitted_all_Nil: "emitted_all st [] = st"
  by (simp add: emitted_all_def option.map_ident)

lemma emitted_all_Cons:
  "emitted_all (emitted st e t) evs = emitted_all st ((e, [(''content'', PStr t)]) # evs)"
  by (simp add: emitted_all_def emitted_def option.map_comp o_def)

lemma emitted_after_all:
  "emitted (emitted_all st evs) e t = emitted_all st (evs @ [(e, [(''content'', PStr t)])])"
  by (simp add: emitted_all_def emitted_def option.map_comp o_def)

lemma delivery_loop_run:
  "enough_writes st (length (takeWhile in_time_progress as)) \<Longrightarrow>
   delivery_loop as st = loop_result as st"
proof (induction as arbitrary: st)
  case Nil
  then show ?case
    by (simp add: loop_result_def on_timeout_def write_ok enough_writes_now emitted_all_Nil progress_events_def)
next
  case (Cons a as)
  obtain gap outbound where a: "a = (gap, outbound)" by (cases a)
  show ?case
  proof (cases "in_time_progress a")
    case True
    with Cons.prems have w: "enough_writes st (Suc (length (takeWhile in_time_progress as)))"
      by simp
    from True a have g: "gap < 900" and p: "is_progress_of outbound = Inr True"
      by (simp_all add: in_time_progress_def)
    have "delivery_loop (a # as) st = delivery_loop as (emitted st ''progress'' (content outbound))"
      using g p w by (simp add: a write_ok enough_writes_now)
    also have "\<dots> = loop_result as (emitted st ''progress'' (content outbound))"
      using w by (intro Cons.IH enough_writes_emitted)
    also have "\<dots> = loop_result (a # as) st"
      using True by (simp add: loop_result_def a progress_events_def emitted_all_Cons)
    finally show ?thesis .
  next
    case False
    with Cons.prems have w: "writes_left st \<noteq> Some 0"
      by (simp add: enough_writes_now)
    show ?thesis
    proof (cases "900 \<le> gap")
      case True
      then show ?thesis using False w
        by (simp add: a loop_result_def on_timeout_def write_ok emitted_all_Nil progress_events_def)
    next
      case late: False
      show ?thesis
      proof (cases "is_progress_of outbound")
        case (Inl e)
        then show ?thesis using False late
          by (simp add: a loop_result_def emitted_all_Nil progress_events_def)
      next
        case (Inr flag)
        with False late a have "\<not> flag" by (auto simp: in_time_progress_def)
        then show ?thesis using False late Inr w
          by (simp add: a loop_result_def write_ok emitted_all_Nil progress_events_def)
      qed
    qed
  qed
qed

text \<open>
  One round of the loop on a message whose flag can be read (the metadata is false or a
  dictionary whose \<open>progress\<close> is missing or a dictionary), taken from the queue in
  time on a connection that takes the write: with a true flag the loop writes one
  \<open>progress\<close> event with the content and goes on with the next wait; with a false or
  missing flag it writes one \<open>response\<close> event with the content and returns at once,
  whatever else is or will be on the queue.
\<close>

lemma is_progress_of_readable:
  "(\<exists>flag. is_progress_of outbound = Inr flag) \<longleftrightarrow>
     (\<not> truthy (metadata outbound)
      \<or> (\<exists>d. metadata outbound = PDict d
               \<and> (map_of d ''progress'' = None \<or> (\<exists>p. map_of d ''progress'' = Some (PDict p)))))"
  by (cases "metadata outbound")
     (auto simp: is_progress_of_def get_default_def py_or_def split: option.splits pyval.splits)

lemma delivery_loop_step:
  assumes "gap < 900" and "is_progress_of outbound = Inr flag" and "writes_left st \<noteq> Some 0"
  shows "delivery_loop ((gap, outbound) # rest) st =
           (if flag then delivery_loop rest (emitted st ''progress'' (content outbound))
            else (StreamReturned FinalMessage, emitted st ''response'' (content outbound)))"
  using assms by (simp add: write_ok)

lemma delivery_loop_step_example:
  "(2::nat) < 900
   \<and> is_progress_of (progress_msg ''thinking'') = Inr True
   \<and> writes_left st0 \<noteq> Some 0
   \<and> delivery_loop [(2, progress_msg ''thinking''),
                     (5, \<lparr>content = ''hello back'', metadata = PNone\<rparr>),
                     (0, progress_msg ''too late'')] st0
     = (StreamReturned FinalMessage,
        \<lparr>pending = Map.empty, prepared = False,
         events = [(''progress'', [(''content'', PStr ''thinking'')]),
                   (''response'', [(''content'', PStr ''hello back'')])],
         writes_left = None, published = []\<rparr>)"
proof -
  let ?rest = "[(5, \<lparr>content = ''hello back'', metadata = PNone\<rparr>), (0, progress_msg ''too late'')]"
  have g: "(2::nat) < 900" by simp
  have p: "is_progress_of (progress_msg ''thinking'') = Inr True"
    by (simp add: is_progress_of_def get_default_def py_or_def)
  have w: "writes_left st0 \<noteq> Some 0" by simp
  have "delivery_loop ((2, progress_msg ''thinking'') # ?rest) st0 =
          delivery_loop ?rest (emitted st0 ''progress'' ''thinking'')"
    using delivery_loop_step [OF g p w, of ?rest] by simp
  also have "\<dots> = (StreamReturned FinalMessage,
        \<lparr>pending = Map.empty, prepared = False,
         events = [(''progress'', [(''content'', PStr ''thinking'')]),
                   (''response'', [(''content'', PStr ''hello back'')])],
         writes_left = None, published = []\<rparr>)"
    by (simp add: emitted_def is_progress_of_def get_default_def py_or_def write_sse_event_def)
  finally show ?thesis using g p w by simp
qed

text \<open>
  C2 fails on the code. A message whose \<open>progress\<close> metadata is \<open>None\<close> has no progress
  flag, and \<open>send\<close> routes it to the queue of the request named under \<open>http_relay\<close>.
  When the loop takes it, reading the flag raises AttributeError: no \<open>response\<close> event
  is written and the loop does not return the stream, it is left by the exception.
\<close>

theorem flagless_message_raises:
  "extract_request_id null_msg = Inr (Some ''r1'')
   \<and> send null_msg [''r1'' \<mapsto> []] = Inr [''r1'' \<mapsto> [null_msg]]
   \<and> is_progress_of null_msg = Inl AttributeError
   \<and> delivery_loop [(1, null_msg)] st0 = (Raised AttributeError, st0)"
  by (simp add: send_def extract_request_id_def request_id_in_def dict_get_def
        is_progress_of_def get_default_def py_or_def)

theorem flagless_message_raises_witness:
  "fst (delivery_loop [(1, null_msg)] st0) = Raised AttributeError
   \<and> events (snd (delivery_loop [(1, null_msg)] st0)) = []"
proof -
  have h: "delivery_loop [(1, null_msg)] st0 = (Raised AttributeError, st0)"
    using flagless_message_raises by blast
  show ?thesis
    unfolding h by simp
qed



text \<open>
  When every message on the queue has a metadata shape the flag can be read from, and
  the connection takes the writes, the loop returns and the last event it wrote
  is a \<open>response\<close> event.
\<close>

lemma delivery_loop_terminal_event:
  assumes "enough_writes st (length (takeWhile in_time_progress as))"
    and "\<forall>a \<in> set as. \<exists>flag. is_progress_of (snd a) = Inr flag"
  shows "\<exists>path text. delivery_loop as st =
           (StreamReturned path,
            emitted (emitted_all st (progress_events (takeWhile in_time_progress as)))
              ''response'' text)"
proof (cases "dropWhile in_time_progress as")
  case Nil
  have "delivery_loop as st =
          (StreamReturned TimedOut,
           emitted (emitted_all st (progress_events (takeWhile in_time_progress as)))
             ''response'' ''Upstream response timed out.'')"
    unfolding delivery_loop_run [OF assms(1)] loop_result_def Let_def Nil by simp
  then show ?thesis by blast
next
  case (Cons a rest)
  then have "a \<in> set as"
    by (metis list.set_intros(1) set_dropWhileD)
  with assms(2) obtain flag where flag: "is_progress_of (snd a) = Inr flag" by blast
  show ?thesis
  proof (cases "900 \<le> fst a")
    case True
    have "delivery_loop as st =
            (StreamReturned TimedOut,
             emitted (emitted_all st (progress_events (takeWhile in_time_progress as)))
               ''response'' ''Upstream response timed out.'')"
      unfolding delivery_loop_run [OF assms(1)] loop_result_def Let_def Cons using True by simp
    then show ?thesis by blast
  next
    case False
    have "delivery_loop as st =
            (StreamReturned FinalMessage,
             emitted (emitted_all st (progress_events (takeWhile in_time_progress as)))
               ''response'' (content (snd a)))"
      unfolding delivery_loop_run [OF assms(1)] loop_result_def Let_def Cons
      using False flag by simp
    then show ?thesis by blast
  qed
qed

subsection \<open>The registry entry of a request\<close>




lemma handle_valid:
  assumes "valid_request req body"
  shows "handle_message_post req st =
     (case tag_metadata (minted_id req) (py_or (dict_get body ''metadata'') (PDict [])) of
        Inl e \<Rightarrow> (Raised e, st)
      | Inr md \<Rightarrow>
          (fst (stream_request req md (register_pending (minted_id req) st)),
           pop_pending (minted_id req) (snd (stream_request req md (register_pending (minted_id req) st)))))"
proof -
  have parsed: "parse_request_body req = Inr body"
    using assms by (simp add: valid_request_def parse_request_body_def)
  show ?thesis
    unfolding handle_message_post_def parsed using assms
    by (simp add: valid_request_def Let_def split: sum.splits prod.splits)
qed

text \<open>
  A valid request whose own \<open>http_relay\<close> metadata is not a dictionary leaves at line
  107, before the registration: the state is as it was.
\<close>

lemma handle_untaggable:
  assumes "valid_request req body"
    and "tag_metadata (minted_id req) (py_or (dict_get body ''metadata'') (PDict [])) = Inl e"
  shows "handle_message_post req st = (Raised e, st)"
  by (simp add: handle_valid [OF assms(1)] assms(2))



text \<open>
  C7, as the code has it. The handler makes no test for a correlation id that is already
  in the registry: the assignment of line 111 puts the fresh queue in the place of the
  queue that was there, and the request runs exactly as it does when the id is unused.
\<close>

theorem duplicate_id_replaced:
  assumes "valid_request req body"
    and "tag_metadata (minted_id req) (py_or (dict_get body ''metadata'') (PDict [])) = Inr md"
    and "pending st (minted_id req) = Some queue"
  shows "pending (register_pending (minted_id req) st) (minted_id req) = Some []
       \<and> handle_message_post req st =
           handle_message_post req (st\<lparr>pending := (pending st)(minted_id req := None)\<rparr>)"
proof -
  let ?rid = "minted_id req"
  have "register_pending ?rid (st\<lparr>pending := (pending st)(?rid := None)\<rparr>) = register_pending ?rid st"
    by (simp add: register_pending_def)
  then show ?thesis
    by (simp add: handle_valid [OF assms(1)] assms(2)) (simp add: register_pending_def)
qed

theorem duplicate_id_replaced_witness:
  "valid_request (req0 []) body0
   \<and> tag_metadata ''r1'' (py_or (dict_get body0 ''metadata'') (PDict []))
       = Inr [(''http_relay'', PDict [(''request_id'', PStr ''r1'')])]
   \<and> pending (st0\<lparr>pending := [''r1'' \<mapsto> [final_msg ''old'']]\<rparr>) ''r1'' = Some [final_msg ''old'']
   \<and> pending (register_pending ''r1'' (st0\<lparr>pending := [''r1'' \<mapsto> [final_msg ''old'']]\<rparr>)) ''r1'' = Some []
   \<and> handle_message_post (req0 []) (st0\<lparr>pending := [''r1'' \<mapsto> [final_msg ''old'']]\<rparr>)
       = handle_message_post (req0 []) st0"
proof -
  let ?st = "st0\<lparr>pending := [''r1'' \<mapsto> [final_msg ''old'']]\<rparr>"
  let ?md = "[(''http_relay'', PDict [(''request_id'', PStr ''r1'')])]"
  have v: "valid_request (req0 []) body0"
    by (simp add: valid_request_def dict_get_def py_or_def)
  have t: "tag_metadata (minted_id (req0 [])) (py_or (dict_get body0 ''metadata'') (PDict [])) = Inr ?md"
    by (simp add: tag_metadata_def normalize_metadata_def setdefault_def dict_get_def py_or_def)
  have q: "pending ?st (minted_id (req0 [])) = Some [final_msg ''old'']"
    by simp
  from duplicate_id_replaced [OF v t q] v t q show ?thesis by simp
qed

text \<open>
  C7 as stated fails: with the minted id already in the registry, the registration is no
  error, the queue that held a message is replaced by an empty one, and the handler runs
  to its timeout and returns the stream.
\<close>

theorem duplicate_id_not_rejected:
  "pending (st0\<lparr>pending := [''r1'' \<mapsto> [final_msg ''old'']]\<rparr>) ''r1'' = Some [final_msg ''old'']
   \<and> pending (register_pending ''r1'' (st0\<lparr>pending := [''r1'' \<mapsto> [final_msg ''old'']]\<rparr>)) ''r1'' = Some []
   \<and> handle_message_post (req0 []) (st0\<lparr>pending := [''r1'' \<mapsto> [final_msg ''old'']]\<rparr>)
       = (StreamReturned TimedOut,
          \<lparr>pending = Map.empty, prepared = True,
           events = [(''response'', [(''content'', PStr ''Upstream response timed out.'')])],
           writes_left = None,
           published = [[(''http_relay'', PDict [(''request_id'', PStr ''r1'')])]]\<rparr>)"
  by (simp add: eval_defs)

subsection \<open>The terminal event\<close>

text \<open>
  C9 fails on the code. A message whose \<open>progress\<close> metadata is not a dictionary and
  whose \<open>http_relay.request_id\<close> is the id of the request is routed to the request's
  queue by \<open>send\<close>; when the loop takes it, reading the flag raises AttributeError, and
  the handler leaves by that exception with the stream open and no event written.
\<close>

theorem non_mapping_progress_raises:
  "extract_request_id
     \<lparr>content = ''working'',
      metadata = PDict [(''progress'', PStr ''half''), (''http_relay'', PDict [(''request_id'', PStr ''r1'')])]\<rparr>
     = Inr (Some ''r1'')
   \<and> handle_message_post
     \<lparr>json_body = Some (PDict [(''sender_id'', PStr ''u1''), (''chat_id'', PStr ''c1''), (''content'', PStr ''hi'')]),
      minted_id = ''r1'', prepare_fails = False, publish = Published,
      arrivals = [(1, \<lparr>content = ''working'',
                        metadata = PDict [(''progress'', PStr ''half''),
                                          (''http_relay'', PDict [(''request_id'', PStr ''r1'')])]\<rparr>)]\<rparr>
     \<lparr>pending = Map.empty, prepared = False, events = [], writes_left = None, published = []\<rparr>
   = (Raised AttributeError,
      \<lparr>pending = Map.empty, prepared = True, events = [], writes_left = None,
       published = [[(''http_relay'', PDict [(''request_id'', PStr ''r1'')])]]\<rparr>)"
  by (simp add: extract_request_id_def get_default_def py_or_def request_id_in_def dict_get_def
        handle_message_post_def parse_request_body_def tag_metadata_def normalize_metadata_def
        setdefault_def stream_request_def register_pending_def pop_pending_def is_progress_of_def
        Let_def)

text \<open>
  The same run, read off the result: the validation passed, the handler left by the
  exception, and the caller has received no \<open>response\<close> event.
\<close>

theorem non_mapping_progress_raises_witness:
  "valid_request (req0 [(1, bad_msg)]) body0
   \<and> fst (handle_message_post (req0 [(1, bad_msg)]) st0) = Raised AttributeError
   \<and> events (snd (handle_message_post (req0 [(1, bad_msg)]) st0)) = []
   \<and> pending (snd (handle_message_post (req0 [(1, bad_msg)]) st0)) ''r1'' = None"
proof -
  have v: "valid_request (req0 [(1, bad_msg)]) body0"
    by (simp add: valid_request_def dict_get_def py_or_def)
  have h: "handle_message_post (req0 [(1, bad_msg)]) st0
           = (Raised AttributeError,
              \<lparr>pending = Map.empty, prepared = True, events = [], writes_left = None,
               published = [[(''http_relay'', PDict [(''request_id'', PStr ''r1'')])]]\<rparr>)"
    using non_mapping_progress_raises by (rule conjunct2)
  show ?thesis
    unfolding h using v by simp
qed

text \<open>
  A publish that is left by a cancellation is a further path without a terminal event:
  line 133 catches \<open>Exception\<close> only, so no failure notice is written; the \<open>finally\<close>
  still removes the registry entry.
\<close>

lemma cancelled_publish_no_event:
  assumes "\<not> prepare_fails req" and "publish req = PublishCancelled"
  shows "stream_request req md st = (Raised CancelledError, st\<lparr>prepared := True\<rparr>)"
  using assms by (simp add: stream_request_def)

end
